theory Spec2Isabelle
  imports Main "HOL-Library.Word"
begin

section \<open>The structures of \<^verbatim>\<open>cpipeline_vtab.h\<close>\<close>

text \<open>
  The header declares two plain structures and nothing else:
  \<^verbatim>\<open>
  struct cpipeline_sqlite3_vtab {
      sqlite3_vtab base;
      void *virtual_table_module_ptr;
  };
  struct cpipeline_sqlite3_vtab_cursor {
      sqlite3_vtab_cursor base;
      void *virtual_table_cursor_ptr;
  };
  \<close>
  The types \<^verbatim>\<open>sqlite3_vtab\<close> and \<^verbatim>\<open>sqlite3_vtab_cursor\<close> come from
  \<^verbatim>\<open>sqlite3.h\<close>, which is SQLite's header and not a file of this package: the two
  base types are type parameters of the records below, so every result holds for
  whatever SQLite puts into them.
\<close>

subsection \<open>Untyped pointers\<close>

text \<open>
  A \<^verbatim>\<open>void *\<close> is an address of the target's pointer width \<open>'w\<close> (64 bits on
  the usual targets), so two pointers are equal exactly when they agree bit by bit.
  The null pointer is the address zero.
\<close>

type_synonym 'w void_ptr = "'w word"

definition NULL :: "'w::len void_ptr" where
  "NULL = 0"

subsection \<open>The two structures\<close>

text \<open>
  Each structure is a record with the fields of the declaration, in its order. The type
  of the pointer field is the parameter \<open>'void_ptr\<close>; everywhere below it is
  \<open>'w void_ptr\<close>. Member access \<^verbatim>\<open>s.f\<close> is the selector \<open>f s\<close>, and the
  assignment \<^verbatim>\<open>s.f = v\<close> is the update \<open>s\<lparr>f := v\<rparr>\<close>, which returns the
  structure after the assignment.

  Both structures call their first field \<^verbatim>\<open>base\<close>, so the field is always written
  with the name of its structure in front.

  A record holds the values of the fields. Where the fields lie in memory (byte offsets,
  padding, the size of the structure) is fixed by the C implementation and is not part
  of this model.
\<close>

record ('sqlite3_vtab, 'void_ptr) cpipeline_sqlite3_vtab =
  base :: 'sqlite3_vtab
  virtual_table_module_ptr :: 'void_ptr

record ('sqlite3_vtab_cursor, 'void_ptr) cpipeline_sqlite3_vtab_cursor =
  base :: 'sqlite3_vtab_cursor
  virtual_table_cursor_ptr :: 'void_ptr

section \<open>Properties of the structures\<close>

subsection \<open>Storing and reading the opaque pointer\<close>

text \<open>
  Claim C3. For every pointer \<open>p\<close> that is not null, storing \<open>p\<close> into
  \<^verbatim>\<open>virtual_table_module_ptr\<close> of a \<^verbatim>\<open>cpipeline_sqlite3_vtab\<close>, or into
  \<^verbatim>\<open>virtual_table_cursor_ptr\<close> of a \<^verbatim>\<open>cpipeline_sqlite3_vtab_cursor\<close>, and then
  reading the field gives back \<open>p\<close>, bit for bit.
\<close>

theorem opaque_ptr_roundtrip_nonnull:
  fixes p :: "'w::len void_ptr"
    and s :: "('sqlite3_vtab, 'w void_ptr) cpipeline_sqlite3_vtab"
    and c :: "('sqlite3_vtab_cursor, 'w void_ptr) cpipeline_sqlite3_vtab_cursor"
  assumes "p \<noteq> NULL"
  shows "virtual_table_module_ptr (s\<lparr>virtual_table_module_ptr := p\<rparr>) = p
       \<and> virtual_table_cursor_ptr (c\<lparr>virtual_table_cursor_ptr := p\<rparr>) = p"
  by simp

theorem opaque_ptr_roundtrip_nonnull_witness:
  "(0x7FFF5FBFF8A0 :: 64 void_ptr) \<noteq> NULL
   \<and> virtual_table_module_ptr
        (\<lparr>cpipeline_sqlite3_vtab.base = (3::nat), virtual_table_module_ptr = (0 :: 64 void_ptr)\<rparr>
           \<lparr>virtual_table_module_ptr := 0x7FFF5FBFF8A0\<rparr>) = 0x7FFF5FBFF8A0
   \<and> virtual_table_cursor_ptr
        (\<lparr>cpipeline_sqlite3_vtab_cursor.base = (5::nat), virtual_table_cursor_ptr = (0x10 :: 64 void_ptr)\<rparr>
           \<lparr>virtual_table_cursor_ptr := 0x7FFF5FBFF8A0\<rparr>) = 0x7FFF5FBFF8A0"
proof -
  have nonnull: "(0x7FFF5FBFF8A0 :: 64 void_ptr) \<noteq> NULL"
    by (simp add: NULL_def)
  from opaque_ptr_roundtrip_nonnull [OF nonnull,
      of "\<lparr>cpipeline_sqlite3_vtab.base = (3::nat), virtual_table_module_ptr = 0\<rparr>"
         "\<lparr>cpipeline_sqlite3_vtab_cursor.base = (5::nat), virtual_table_cursor_ptr = 0x10\<rparr>"]
  show ?thesis
    using nonnull by simp
qed

text \<open>
  Claim C8. The same round trip holds for the null pointer: the fields are plain
  pointers that nothing validates, so storing \<^verbatim>\<open>NULL\<close> and reading the field
  gives \<^verbatim>\<open>NULL\<close>.
\<close>

theorem opaque_ptr_roundtrip_null:
  fixes s :: "('sqlite3_vtab, 'w::len void_ptr) cpipeline_sqlite3_vtab"
    and c :: "('sqlite3_vtab_cursor, 'w void_ptr) cpipeline_sqlite3_vtab_cursor"
  shows "virtual_table_module_ptr (s\<lparr>virtual_table_module_ptr := NULL\<rparr>) = NULL
       \<and> virtual_table_cursor_ptr (c\<lparr>virtual_table_cursor_ptr := NULL\<rparr>) = NULL"
  by simp

subsection \<open>The two fields are independent\<close>

text \<open>
  Claim C5. In either structure, writing the opaque pointer field leaves \<^verbatim>\<open>base\<close>
  as it was, and writing \<^verbatim>\<open>base\<close> leaves the opaque pointer field as it was.
\<close>

theorem field_writes_frame:
  fixes s :: "('sqlite3_vtab, 'w::len void_ptr) cpipeline_sqlite3_vtab"
    and c :: "('sqlite3_vtab_cursor, 'w void_ptr) cpipeline_sqlite3_vtab_cursor"
  shows "cpipeline_sqlite3_vtab.base (s\<lparr>virtual_table_module_ptr := p\<rparr>)
           = cpipeline_sqlite3_vtab.base s
       \<and> virtual_table_module_ptr (s\<lparr>cpipeline_sqlite3_vtab.base := b\<rparr>)
           = virtual_table_module_ptr s
       \<and> cpipeline_sqlite3_vtab_cursor.base (c\<lparr>virtual_table_cursor_ptr := q\<rparr>)
           = cpipeline_sqlite3_vtab_cursor.base c
       \<and> virtual_table_cursor_ptr (c\<lparr>cpipeline_sqlite3_vtab_cursor.base := d\<rparr>)
           = virtual_table_cursor_ptr c"
  by simp

text \<open>
  Claim C10. Reading the opaque pointer field does not depend on \<^verbatim>\<open>base\<close>: two
  instances of the same structure that differ only in what \<^verbatim>\<open>base\<close> holds (one
  is the other with \<^verbatim>\<open>base\<close> replaced) give the same value for
  \<^verbatim>\<open>virtual_table_module_ptr\<close>, respectively \<^verbatim>\<open>virtual_table_cursor_ptr\<close>.
\<close>

theorem opaque_ptr_read_ignores_base:
  fixes s t :: "('sqlite3_vtab, 'w::len void_ptr) cpipeline_sqlite3_vtab"
    and c d :: "('sqlite3_vtab_cursor, 'w void_ptr) cpipeline_sqlite3_vtab_cursor"
  shows "(t = s\<lparr>cpipeline_sqlite3_vtab.base := b\<rparr>
            \<longrightarrow> virtual_table_module_ptr t = virtual_table_module_ptr s)
       \<and> (d = c\<lparr>cpipeline_sqlite3_vtab_cursor.base := e\<rparr>
            \<longrightarrow> virtual_table_cursor_ptr d = virtual_table_cursor_ptr c)"
  by simp

theorem opaque_ptr_read_ignores_base_witness:
  "\<lparr>cpipeline_sqlite3_vtab.base = (9::nat), virtual_table_module_ptr = (0x1000 :: 64 void_ptr)\<rparr>
     = \<lparr>cpipeline_sqlite3_vtab.base = 4, virtual_table_module_ptr = 0x1000\<rparr>
         \<lparr>cpipeline_sqlite3_vtab.base := 9\<rparr>
   \<and> virtual_table_module_ptr
        \<lparr>cpipeline_sqlite3_vtab.base = (9::nat), virtual_table_module_ptr = (0x1000 :: 64 void_ptr)\<rparr>
     = virtual_table_module_ptr
        \<lparr>cpipeline_sqlite3_vtab.base = (4::nat), virtual_table_module_ptr = (0x1000 :: 64 void_ptr)\<rparr>
   \<and> \<lparr>cpipeline_sqlite3_vtab_cursor.base = (8::nat), virtual_table_cursor_ptr = (0x2000 :: 64 void_ptr)\<rparr>
     = \<lparr>cpipeline_sqlite3_vtab_cursor.base = 6, virtual_table_cursor_ptr = 0x2000\<rparr>
         \<lparr>cpipeline_sqlite3_vtab_cursor.base := 8\<rparr>
   \<and> virtual_table_cursor_ptr
        \<lparr>cpipeline_sqlite3_vtab_cursor.base = (8::nat), virtual_table_cursor_ptr = (0x2000 :: 64 void_ptr)\<rparr>
     = virtual_table_cursor_ptr
        \<lparr>cpipeline_sqlite3_vtab_cursor.base = (6::nat), virtual_table_cursor_ptr = (0x2000 :: 64 void_ptr)\<rparr>"
  using opaque_ptr_read_ignores_base
    [where t = "\<lparr>cpipeline_sqlite3_vtab.base = (9::nat), virtual_table_module_ptr = (0x1000 :: 64 void_ptr)\<rparr>"
       and s = "\<lparr>cpipeline_sqlite3_vtab.base = (4::nat), virtual_table_module_ptr = (0x1000 :: 64 void_ptr)\<rparr>"
       and b = 9
       and d = "\<lparr>cpipeline_sqlite3_vtab_cursor.base = (8::nat), virtual_table_cursor_ptr = (0x2000 :: 64 void_ptr)\<rparr>"
       and c = "\<lparr>cpipeline_sqlite3_vtab_cursor.base = (6::nat), virtual_table_cursor_ptr = (0x2000 :: 64 void_ptr)\<rparr>"
       and e = 8]
  by simp

subsection \<open>Field access cannot fail\<close>

text \<open>
  Claim C7. No field access can fail. An assignment to a field is defined for every
  structure and every value, the null pointer included: nothing is checked or rejected,
  the value is stored as given, and the structure after the assignment is the one before
  it with that one field replaced, so the assignment touches nothing else. Reading a
  field is the selector, which has a value for every structure.
\<close>

theorem field_access_total_unvalidated:
  fixes s :: "('sqlite3_vtab, 'w::len void_ptr) cpipeline_sqlite3_vtab"
    and c :: "('sqlite3_vtab_cursor, 'w void_ptr) cpipeline_sqlite3_vtab_cursor"
  shows "s\<lparr>virtual_table_module_ptr := p\<rparr>
           = \<lparr>cpipeline_sqlite3_vtab.base = cpipeline_sqlite3_vtab.base s,
              virtual_table_module_ptr = p\<rparr>
       \<and> s\<lparr>cpipeline_sqlite3_vtab.base := b\<rparr>
           = \<lparr>cpipeline_sqlite3_vtab.base = b,
              virtual_table_module_ptr = virtual_table_module_ptr s\<rparr>
       \<and> c\<lparr>virtual_table_cursor_ptr := q\<rparr>
           = \<lparr>cpipeline_sqlite3_vtab_cursor.base = cpipeline_sqlite3_vtab_cursor.base c,
              virtual_table_cursor_ptr = q\<rparr>
       \<and> c\<lparr>cpipeline_sqlite3_vtab_cursor.base := d\<rparr>
           = \<lparr>cpipeline_sqlite3_vtab_cursor.base = d,
              virtual_table_cursor_ptr = virtual_table_cursor_ptr c\<rparr>"
  by simp

subsection \<open>No state beyond the declared fields\<close>

text \<open>
  Claim C9. A structure holds nothing but its two declared fields: two values of
  \<^verbatim>\<open>cpipeline_sqlite3_vtab\<close> (respectively \<^verbatim>\<open>cpipeline_sqlite3_vtab_cursor\<close>)
  with equal \<^verbatim>\<open>base\<close> fields and equal opaque pointer fields are equal.
\<close>

theorem struct_determined_by_fields:
  fixes s t :: "('sqlite3_vtab, 'w::len void_ptr) cpipeline_sqlite3_vtab"
    and c d :: "('sqlite3_vtab_cursor, 'w void_ptr) cpipeline_sqlite3_vtab_cursor"
  shows "(cpipeline_sqlite3_vtab.base s = cpipeline_sqlite3_vtab.base t
            \<and> virtual_table_module_ptr s = virtual_table_module_ptr t \<longrightarrow> s = t)
       \<and> (cpipeline_sqlite3_vtab_cursor.base c = cpipeline_sqlite3_vtab_cursor.base d
            \<and> virtual_table_cursor_ptr c = virtual_table_cursor_ptr d \<longrightarrow> c = d)"
  by simp

text \<open>
  The witness builds the same structure along two routes, by assigning the fields in
  either order from different starting values, and reads the equality of the results
  off the equality of their fields.
\<close>

theorem struct_determined_by_fields_witness:
  "\<lparr>cpipeline_sqlite3_vtab.base = (1::nat), virtual_table_module_ptr = (0 :: 64 void_ptr)\<rparr>
       \<lparr>cpipeline_sqlite3_vtab.base := 3, virtual_table_module_ptr := 0x1000\<rparr>
     = \<lparr>cpipeline_sqlite3_vtab.base = 7, virtual_table_module_ptr = 0x1000\<rparr>
       \<lparr>cpipeline_sqlite3_vtab.base := 3\<rparr>
   \<and> \<lparr>cpipeline_sqlite3_vtab_cursor.base = (2::nat), virtual_table_cursor_ptr = (0 :: 64 void_ptr)\<rparr>
       \<lparr>virtual_table_cursor_ptr := 0x2000, cpipeline_sqlite3_vtab_cursor.base := 5\<rparr>
     = \<lparr>cpipeline_sqlite3_vtab_cursor.base = 5, virtual_table_cursor_ptr = 0x30\<rparr>
       \<lparr>virtual_table_cursor_ptr := 0x2000\<rparr>"
proof -
  let ?s = "\<lparr>cpipeline_sqlite3_vtab.base = (1::nat), virtual_table_module_ptr = (0 :: 64 void_ptr)\<rparr>
              \<lparr>cpipeline_sqlite3_vtab.base := 3, virtual_table_module_ptr := 0x1000\<rparr>"
  let ?t = "\<lparr>cpipeline_sqlite3_vtab.base = (7::nat), virtual_table_module_ptr = (0x1000 :: 64 void_ptr)\<rparr>
              \<lparr>cpipeline_sqlite3_vtab.base := 3\<rparr>"
  let ?c = "\<lparr>cpipeline_sqlite3_vtab_cursor.base = (2::nat), virtual_table_cursor_ptr = (0 :: 64 void_ptr)\<rparr>
              \<lparr>virtual_table_cursor_ptr := 0x2000, cpipeline_sqlite3_vtab_cursor.base := 5\<rparr>"
  let ?d = "\<lparr>cpipeline_sqlite3_vtab_cursor.base = (5::nat), virtual_table_cursor_ptr = (0x30 :: 64 void_ptr)\<rparr>
              \<lparr>virtual_table_cursor_ptr := 0x2000\<rparr>"
  have vtab_fields:
    "cpipeline_sqlite3_vtab.base ?s = cpipeline_sqlite3_vtab.base ?t
       \<and> virtual_table_module_ptr ?s = virtual_table_module_ptr ?t"
    by simp
  have cursor_fields:
    "cpipeline_sqlite3_vtab_cursor.base ?c = cpipeline_sqlite3_vtab_cursor.base ?d
       \<and> virtual_table_cursor_ptr ?c = virtual_table_cursor_ptr ?d"
    by simp
  from struct_determined_by_fields [where s = ?s and t = ?t and c = ?c and d = ?d]
  have "?s = ?t" and "?c = ?d"
    using vtab_fields cursor_fields by blast+
  then show ?thesis
    by (rule conjI)
qed

end
